theory Spec2Isabelle
  imports Main "HOL-Library.Sublist" "HOL-Library.Product_Lexorder"
    "HOL-Library.List_Lexorder" "HOL-Library.Char_ord"
begin

section \<open>Strings as the source uses them\<close>

text \<open>
  Paths and file names are modelled as \<^typ>\<open>string\<close>, one \<^typ>\<open>char\<close> per character of
  the Python \<open>str\<close>; the case conversions act on the letters A to Z and a to z, which is
  what \<open>str.upper\<close> and \<open>str.lower\<close> do on ASCII text.  \<open>startswith\<close>, \<open>endswith\<close> and
  the substring test \<open>in\<close> are \<^const>\<open>prefix\<close>, \<^const>\<open>suffix\<close> and \<^const>\<open>sublist\<close>.
\<close>

text \<open>\<open>s.split(sep)\<close> for a one-character separator: never the empty list.\<close>

fun split_on :: "char \<Rightarrow> string \<Rightarrow> string list" where
  "split_on c [] = [[]]"
| "split_on c (x # xs) =
     (if x = c then [] # split_on c xs
      else (case split_on c xs of
              [] \<Rightarrow> [[x]]
            | w # ws \<Rightarrow> (x # w) # ws))"

text \<open>\<open>sep.join(parts)\<close>.\<close>

fun join :: "string \<Rightarrow> string list \<Rightarrow> string" where
  "join sep [] = []"
| "join sep [p] = p"
| "join sep (p # q # ps) = p @ sep @ join sep (q # ps)"

text \<open>\<open>s.rfind(c)\<close>: the index of the last occurrence, or \<open>-1\<close>.\<close>

primrec rfind_from :: "char \<Rightarrow> string \<Rightarrow> nat \<Rightarrow> int \<Rightarrow> int" where
  "rfind_from c [] i r = r"
| "rfind_from c (x # xs) i r = rfind_from c xs (Suc i) (if x = c then int i else r)"

definition rfind :: "string \<Rightarrow> char \<Rightarrow> int" where
  "rfind s c = rfind_from c s 0 (- 1)"

definition upper_char :: "char \<Rightarrow> char" where
  "upper_char c =
     (case map_of (zip ''abcdefghijklmnopqrstuvwxyz'' ''ABCDEFGHIJKLMNOPQRSTUVWXYZ'') c of
        None \<Rightarrow> c | Some d \<Rightarrow> d)"

definition lower_char :: "char \<Rightarrow> char" where
  "lower_char c =
     (case map_of (zip ''ABCDEFGHIJKLMNOPQRSTUVWXYZ'' ''abcdefghijklmnopqrstuvwxyz'') c of
        None \<Rightarrow> c | Some d \<Rightarrow> d)"

definition upper :: "string \<Rightarrow> string" where
  "upper s = map upper_char s"

definition lower :: "string \<Rightarrow> string" where
  "lower s = map lower_char s"

section \<open>File filtering and priority ranking (app/utils/file\_filter.py)\<close>

definition PRIORITY_TIER1 :: int where "PRIORITY_TIER1 = 1"
definition PRIORITY_TIER2 :: int where "PRIORITY_TIER2 = 2"
definition PRIORITY_TIER3 :: int where "PRIORITY_TIER3 = 3"
definition PRIORITY_TIER4 :: int where "PRIORITY_TIER4 = 4"
definition PRIORITY_SKIP :: int where "PRIORITY_SKIP = 99"

definition EXCLUDED_DIRS :: "string list" where
  "EXCLUDED_DIRS =
    [''node_modules'', ''vendor'', ''.git'', ''dist'', ''build'', ''__pycache__'',
     ''.venv'', ''venv'', ''env'', ''.idea'', ''.vscode'', ''.tox'', ''.mypy_cache'',
     ''.pytest_cache'', ''.next'', ''.nuxt'', ''target'', ''bin'', ''obj'',
     ''coverage'', ''.coverage'', ''htmlcov'', ''.eggs'', ''.gradle'',
     ''.terraform'', ''.serverless'']"

definition EXCLUDED_EXTENSIONS :: "string list" where
  "EXCLUDED_EXTENSIONS =
    [''.png'', ''.jpg'', ''.jpeg'', ''.gif'', ''.ico'', ''.svg'', ''.bmp'', ''.webp'',
     ''.woff'', ''.woff2'', ''.ttf'', ''.eot'', ''.otf'',
     ''.mp3'', ''.mp4'', ''.avi'', ''.mov'', ''.wav'',
     ''.zip'', ''.tar'', ''.gz'', ''.bz2'', ''.rar'', ''.7z'',
     ''.pdf'', ''.doc'', ''.docx'', ''.xls'', ''.xlsx'',
     ''.exe'', ''.dll'', ''.so'', ''.dylib'', ''.pyc'', ''.pyo'', ''.class'', ''.o'',
     ''.wasm'',
     ''.sqlite'', ''.db'',
     ''.map'']"

definition EXCLUDED_FILENAMES :: "string list" where
  "EXCLUDED_FILENAMES =
    [''package-lock.json'', ''yarn.lock'', ''poetry.lock'', ''Cargo.lock'',
     ''Gemfile.lock'', ''composer.lock'', ''go.sum'', ''pnpm-lock.yaml'',
     ''npm-shrinkwrap.json'', ''.DS_Store'', ''Thumbs.db'']"

text \<open>Declared by the source, and read by no function of it.\<close>

definition TIER1_FILENAMES :: "string list" where
  "TIER1_FILENAMES = [''README.md'', ''README.rst'', ''README.txt'', ''README'']"

definition TIER2_FILENAMES :: "string list" where
  "TIER2_FILENAMES =
    [''package.json'', ''pyproject.toml'', ''setup.py'', ''setup.cfg'',
     ''Cargo.toml'', ''go.mod'', ''pom.xml'', ''build.gradle'', ''build.gradle.kts'',
     ''Makefile'', ''CMakeLists.txt'', ''Dockerfile'', ''docker-compose.yml'',
     ''docker-compose.yaml'', ''requirements.txt'', ''Gemfile'', ''Pipfile'',
     ''tsconfig.json'', ''tox.ini'', ''.eslintrc.json'', ''.eslintrc.js'',
     ''webpack.config.js'', ''vite.config.ts'', ''vite.config.js'',
     ''next.config.js'', ''next.config.mjs'']"

definition TIER2_DIR_PATTERNS :: "string list" where
  "TIER2_DIR_PATTERNS = [''.github/workflows/'']"

definition TIER3_ENTRY_POINTS :: "string list" where
  "TIER3_ENTRY_POINTS =
    [''main.py'', ''app.py'', ''index.ts'', ''index.js'', ''main.ts'', ''main.js'',
     ''server.py'', ''server.ts'', ''server.js'', ''main.go'', ''main.rs'',
     ''lib.rs'', ''mod.rs'', ''index.py'']"

definition SOURCE_EXTENSIONS :: "string list" where
  "SOURCE_EXTENSIONS =
    [''.py'', ''.js'', ''.ts'', ''.jsx'', ''.tsx'', ''.go'', ''.rs'', ''.java'',
     ''.kt'', ''.rb'', ''.php'', ''.c'', ''.cpp'', ''.h'', ''.hpp'', ''.cs'',
     ''.swift'', ''.scala'', ''.clj'', ''.ex'', ''.exs'', ''.hs'', ''.lua'',
     ''.r'', ''.R'', ''.jl'', ''.sh'', ''.bash'', ''.zsh'', ''.fish'',
     ''.yaml'', ''.yml'', ''.toml'', ''.json'', ''.xml'', ''.html'', ''.css'',
     ''.scss'', ''.less'', ''.sql'', ''.graphql'', ''.proto'', ''.tf'',
     ''.md'', ''.rst'', ''.txt'']"

text \<open>\<open>filename[dot_idx:].lower()\<close> when a dot was found.\<close>

definition ext_from :: "string \<Rightarrow> int \<Rightarrow> string" where
  "ext_from filename dot_idx = lower (drop (nat dot_idx) filename)"

definition should_exclude_path :: "string \<Rightarrow> bool" where
  "should_exclude_path path =
     (let parts = split_on CHR ''/'' path in
      if \<exists>part \<in> set (butlast parts). part \<in> set EXCLUDED_DIRS then True
      else
        let filename = last parts in
        if filename \<in> set EXCLUDED_FILENAMES then True
        else
          let dot_idx = rfind filename CHR ''.'' in
          if dot_idx \<noteq> - 1 \<and> ext_from filename dot_idx \<in> set EXCLUDED_EXTENSIONS then True
          else if suffix ''.min.js'' filename \<or> suffix ''.min.css'' filename then True
          else if sublist ''.chunk.'' filename then True
          else False)"

definition get_file_priority :: "string \<Rightarrow> int" where
  "get_file_priority path =
     (let parts = split_on CHR ''/'' path;
          filename = last parts in
      if prefix ''README'' (upper filename) then PRIORITY_TIER1
      else if filename \<in> set TIER2_FILENAMES then PRIORITY_TIER2
      else if \<exists>pattern \<in> set TIER2_DIR_PATTERNS. prefix pattern path then PRIORITY_TIER2
      else
        let dot_idx = rfind filename CHR ''.'';
            ext = (if dot_idx \<noteq> - 1 then ext_from filename dot_idx else '''') in
        if ext \<notin> set SOURCE_EXTENSIONS \<and> filename \<notin> set TIER3_ENTRY_POINTS
        then PRIORITY_SKIP
        else
          let lower_path = lower path in
          if sublist ''/test'' lower_path
             \<or> sublist ''/tests'' lower_path
             \<or> sublist ''/spec'' lower_path
             \<or> prefix ''test_'' filename
             \<or> suffix ''_test.py'' filename
             \<or> suffix ''.test.js'' filename
             \<or> suffix ''.test.ts'' filename
             \<or> suffix ''.spec.js'' filename
             \<or> suffix ''.spec.ts'' filename
          then PRIORITY_TIER4
          else PRIORITY_TIER3)"

text \<open>
  A file entry is the dictionary \<open>{"path": ..., "size": ...}\<close>; the source reads the size
  with \<open>f.get("size", 0)\<close>, so a missing key is a value of the model.
\<close>

record file_info =
  fi_path :: string
  fi_size :: "int option"

definition get_size :: "file_info \<Rightarrow> int" where
  "get_size f = (case fi_size f of None \<Rightarrow> 0 | Some n \<Rightarrow> n)"

text \<open>
  \<open>_sort_key\<close>: the tuple \<open>(priority, is_entry, depth, size)\<close>.  Python compares tuples
  lexicographically, which is the order of \<^typ>\<open>int \<times> int \<times> int \<times> int\<close> here.
\<close>

definition sort_key_of :: "file_info \<Rightarrow> int \<times> int \<times> int \<times> int" where
  "sort_key_of file_info =
     (let path = fi_path file_info;
          priority = get_file_priority path;
          depth = int (count_list path CHR ''/'');
          size = get_size file_info;
          filename = last (split_on CHR ''/'' path);
          is_entry = (if filename \<in> set TIER3_ENTRY_POINTS then 0 else 1)
      in (priority, is_entry, depth, size))"

text \<open>Python's \<open>\<le>\<close> on two such tuples, written out component by component.\<close>

definition tuple_le :: "int \<times> int \<times> int \<times> int \<Rightarrow> int \<times> int \<times> int \<times> int \<Rightarrow> bool" where
  "tuple_le a b =
     (case a of (p, e, d, s) \<Rightarrow> case b of (p', e', d', s') \<Rightarrow>
        p < p' \<or> (p = p' \<and> (e < e' \<or> (e = e' \<and> (d < d' \<or> (d = d' \<and> s \<le> s'))))))"

text \<open>
  The two list comprehensions, and then \<open>eligible.sort(key=_sort_key)\<close>; Python's sort is
  stable, as \<^const>\<open>sort_key\<close> is.
\<close>

definition eligible :: "file_info list \<Rightarrow> file_info list" where
  "eligible files =
     (let eligible = filter (\<lambda>f. \<not> should_exclude_path (fi_path f)) files
      in filter (\<lambda>f. get_file_priority (fi_path f) \<noteq> PRIORITY_SKIP) eligible)"

definition eligible_sorted :: "file_info list \<Rightarrow> file_info list" where
  "eligible_sorted files = sort_key sort_key_of (eligible files)"

text \<open>
  The selection loop, with its two variables \<open>selected\<close> and \<open>total_chars\<close> as the state.
\<close>

fun select_loop :: "int \<Rightarrow> file_info list \<Rightarrow> file_info list \<times> int \<Rightarrow> file_info list \<times> int" where
  "select_loop max_chars [] (selected, total_chars) = (selected, total_chars)"
| "select_loop max_chars (f # fs) (selected, total_chars) =
     (let estimated_chars = get_size f in
      if total_chars + estimated_chars > max_chars \<and> selected \<noteq> []
      then select_loop max_chars fs (selected, total_chars)
      else select_loop max_chars fs (selected @ [f], total_chars + estimated_chars))"

definition select_state :: "file_info list \<Rightarrow> int \<Rightarrow> file_info list \<times> int" where
  "select_state files max_chars = select_loop max_chars (eligible_sorted files) ([], 0)"

definition rank_and_select_files :: "file_info list \<Rightarrow> int \<Rightarrow> file_info list" where
  "rank_and_select_files files max_chars = fst (select_state files max_chars)"



section \<open>The GitHub client (app/services/github\_client.py)\<close>

definition NL :: string where
  "NL = [CHR 0x0A]"

text \<open>\<open>"  " * i\<close>.\<close>

definition indent :: "nat \<Rightarrow> string" where
  "indent i = concat (replicate i ''  '')"

text \<open>
  \<open>build_directory_tree\<close>.  The state of its loops is the pair \<open>(seen_dirs, result_lines)\<close>;
  \<open>dir_step\<close> is the body of the inner loop over \<open>range(len(parts) - 1)\<close>, \<open>path_step\<close> the
  body of the outer loop over \<open>sorted(paths)\<close>.
\<close>

definition dir_step :: "string list \<Rightarrow> nat \<Rightarrow> string set \<times> string list \<Rightarrow> string set \<times> string list" where
  "dir_step parts i st =
     (case st of (seen_dirs, result_lines) \<Rightarrow>
        let dir_path = join ''/'' (take (i + 1) parts) in
        if dir_path \<notin> seen_dirs
        then (insert dir_path seen_dirs, result_lines @ [indent i @ parts ! i @ ''/''])
        else (seen_dirs, result_lines))"

definition path_step :: "string \<Rightarrow> string set \<times> string list \<Rightarrow> string set \<times> string list" where
  "path_step path st =
     (let parts = split_on CHR ''/'' path in
      case fold (dir_step parts) [0..<length parts - 1] st of (seen_dirs, result_lines) \<Rightarrow>
        (seen_dirs, result_lines @ [indent (length parts - 1) @ last parts]))"

definition directory_tree_lines :: "string list \<Rightarrow> string list" where
  "directory_tree_lines paths = snd (fold path_step (sort paths) ({}, []))"

definition build_directory_tree :: "string list \<Rightarrow> string" where
  "build_directory_tree paths =
     (if paths = [] then [] else join NL (directory_tree_lines paths))"

text \<open>The entries of the tree listing, the responses and the exceptions of the HTTP client.\<close>

record tree_item =
  ti_path :: string
  ti_type :: "string option"
  ti_size :: "int option"

record repo_info =
  ri_default_branch :: "string option"
  ri_description :: "string option"
  ri_stargazers_count :: "int option"
  ri_forks_count :: "int option"
  ri_language :: "string option"

record tree_data =
  td_tree :: "tree_item list option"

text \<open>A response: its status code, and \<open>.json()\<close> (\<open>None\<close> when it raises \<open>ValueError\<close>).\<close>

record 'a json_response =
  jr_status_code :: int
  jr_json :: "'a option"

record content_response =
  cr_status_code :: int
  cr_text :: string

datatype exn = TimeoutException | HTTPError

datatype 'a outcome = Returns 'a | Raises exn

datatype error = GitHubClientError (message: string) (status_code: int) | Uncaught exn

record settings =
  openai_api_key :: string
  max_content_chars :: int

record repo_data =
  rd_owner :: string
  rd_repo :: string
  rd_description :: string
  rd_stars :: int
  rd_forks :: int
  rd_language :: string
  rd_default_branch :: string
  rd_directory_tree :: string
  rd_file_contents :: "(string \<times> string) list"

text \<open>
  \<open>d[k] = v\<close> on a dictionary kept as an association list in insertion order: an existing
  key keeps its place.
\<close>

fun dict_set :: "('k \<times> 'v) list \<Rightarrow> 'k \<Rightarrow> 'v \<Rightarrow> ('k \<times> 'v) list" where
  "dict_set [] k v = [(k, v)]"
| "dict_set ((k', v') # kvs) k v =
     (if k' = k then (k, v) # kvs else (k', v') # dict_set kvs k v)"

definition file_items_of :: "tree_item list \<Rightarrow> file_info list" where
  "file_items_of tree_items =
     map (\<lambda>item. \<lparr>fi_path = ti_path item,
                   fi_size = Some (case ti_size item of None \<Rightarrow> 0 | Some n \<Rightarrow> n)\<rparr>)
       (filter (\<lambda>item. ti_type item = Some ''blob'') tree_items)"

definition all_paths_of :: "tree_item list \<Rightarrow> string list" where
  "all_paths_of tree_items =
     map ti_path (filter (\<lambda>item. \<not> should_exclude_path (ti_path item)) tree_items)"

definition content_budget_of :: "settings \<Rightarrow> string \<Rightarrow> int" where
  "content_budget_of st directory_tree =
     (let tree_chars = int (length directory_tree);
          content_budget = max_content_chars st - tree_chars - 2000
      in max content_budget 10000)"

definition selected_files_of :: "settings \<Rightarrow> tree_item list \<Rightarrow> file_info list" where
  "selected_files_of st tree_items =
     rank_and_select_files (file_items_of tree_items)
       (content_budget_of st (build_directory_tree (all_paths_of tree_items)))"

text \<open>\<open>if len(text) > 50_000: text = text[:50_000] + "\n\n... [truncated]"\<close>.\<close>

definition truncation_marker :: string where
  "truncation_marker = NL @ NL @ ''... [truncated]''"

definition truncate_text :: "string \<Rightarrow> string" where
  "truncate_text text =
     (if length text > 50000 then take 50000 text @ truncation_marker else text)"

text \<open>
  The body of the loop over \<open>selected_files\<close>, on the state \<open>(file_contents,
  failed_downloads)\<close>.  \<open>raw_get path\<close> is what \<open>await client.get(raw_url)\<close> does for the URL of
  \<open>path\<close>: a response, or one of the two exceptions the loop catches.
\<close>

fun fetch_step ::
  "(string \<Rightarrow> content_response outcome) \<Rightarrow> file_info
     \<Rightarrow> (string \<times> string) list \<times> string list \<Rightarrow> (string \<times> string) list \<times> string list" where
  "fetch_step raw_get file_info (file_contents, failed_downloads) =
     (let path = fi_path file_info in
      case raw_get path of
        Returns content_resp \<Rightarrow>
          if cr_status_code content_resp = 200
          then (dict_set file_contents path (truncate_text (cr_text content_resp)),
                failed_downloads)
          else (file_contents, failed_downloads @ [path])
      | Raises e \<Rightarrow> (file_contents, failed_downloads @ [path]))"

definition fetch_contents ::
  "(string \<Rightarrow> content_response outcome) \<Rightarrow> file_info list
     \<Rightarrow> (string \<times> string) list \<times> string list" where
  "fetch_contents raw_get selected_files = fold (fetch_step raw_get) selected_files ([], [])"

text \<open>Steps 2b to 5 of \<open>fetch_repo_data\<close>, from the parsed tree listing on.\<close>

definition assemble_repo_data ::
  "settings \<Rightarrow> string \<Rightarrow> string \<Rightarrow> repo_info \<Rightarrow> string \<Rightarrow> tree_item list
     \<Rightarrow> (string \<Rightarrow> content_response outcome) \<Rightarrow> error + repo_data" where
  "assemble_repo_data st owner repo info default_branch tree_items raw_get =
     (let directory_tree = build_directory_tree (all_paths_of tree_items);
          selected_files = selected_files_of st tree_items;
          file_contents = fst (fetch_contents raw_get selected_files)
      in if file_contents = [] \<and> directory_tree = []
         then Inl (GitHubClientError
                ''Repository appears empty or has no analyzable files'' 422)
         else Inr \<lparr>rd_owner = owner, rd_repo = repo,
                   rd_description = (case ri_description info of None \<Rightarrow> [] | Some d \<Rightarrow> d),
                   rd_stars = (case ri_stargazers_count info of None \<Rightarrow> 0 | Some n \<Rightarrow> n),
                   rd_forks = (case ri_forks_count info of None \<Rightarrow> 0 | Some n \<Rightarrow> n),
                   rd_language = (case ri_language info of None \<Rightarrow> [] | Some l \<Rightarrow> l),
                   rd_default_branch = default_branch,
                   rd_directory_tree = directory_tree,
                   rd_file_contents = file_contents\<rparr>)"

text \<open>
  \<open>fetch_repo_data\<close>.  \<open>repo_get\<close> is the outcome of the metadata request, \<open>tree_get\<close> that
  of the tree request for a branch, \<open>raw_get\<close> that of a content request for a branch and a
  path.  An exception of the first two requests is not caught by the source.
\<close>

definition fetch_repo_data ::
  "settings \<Rightarrow> string \<Rightarrow> string \<Rightarrow> repo_info json_response outcome
     \<Rightarrow> (string \<Rightarrow> tree_data json_response outcome)
     \<Rightarrow> (string \<Rightarrow> string \<Rightarrow> content_response outcome) \<Rightarrow> error + repo_data" where
  "fetch_repo_data st owner repo repo_get tree_get raw_get =
     (case repo_get of
        Raises e \<Rightarrow> Inl (Uncaught e)
      | Returns repo_resp \<Rightarrow>
          if jr_status_code repo_resp = 404
          then Inl (GitHubClientError (''Repository not found: '' @ owner @ ''/'' @ repo) 404)
          else if jr_status_code repo_resp = 403
          then Inl (GitHubClientError
                 ''GitHub API rate limit exceeded. Try again later.'' 429)
          else if jr_status_code repo_resp \<noteq> 200
          then Inl (GitHubClientError ''Failed to fetch repository data from GitHub'' 502)
          else
            (case jr_json repo_resp of
               None \<Rightarrow> Inl (GitHubClientError ''Failed to parse GitHub API response'' 502)
             | Some info \<Rightarrow>
                 let default_branch =
                       (case ri_default_branch info of None \<Rightarrow> ''main'' | Some b \<Rightarrow> b) in
                 (case tree_get default_branch of
                    Raises e \<Rightarrow> Inl (Uncaught e)
                  | Returns tree_resp \<Rightarrow>
                      if jr_status_code tree_resp \<noteq> 200
                      then Inl (GitHubClientError
                             ''Failed to fetch repository tree from GitHub'' 502)
                      else
                        (case jr_json tree_resp of
                           None \<Rightarrow>
                             Inl (GitHubClientError
                                    ''Failed to parse GitHub tree response'' 502)
                         | Some data \<Rightarrow>
                             let tree_items =
                                   (case td_tree data of None \<Rightarrow> [] | Some t \<Rightarrow> t)
                             in assemble_repo_data st owner repo info default_branch
                                  tree_items (raw_get default_branch)))))"

text \<open>
  The error the specification calls \<open>EmptyResult\<close>, and what the loop counts as a fetched
  file: a response with status 200.  A timeout, an HTTP error and any other status are the
  failures.
\<close>

definition EmptyResult :: error where
  "EmptyResult = GitHubClientError ''Repository appears empty or has no analyzable files'' 422"

definition fetch_ok :: "(string \<Rightarrow> content_response outcome) \<Rightarrow> string \<Rightarrow> bool" where
  "fetch_ok raw_get path =
     (case raw_get path of Returns resp \<Rightarrow> cr_status_code resp = 200 | Raises e \<Rightarrow> False)"

definition fetched_text :: "(string \<Rightarrow> content_response outcome) \<Rightarrow> string \<Rightarrow> string" where
  "fetched_text raw_get path =
     (case raw_get path of Returns resp \<Rightarrow> cr_text resp | Raises e \<Rightarrow> [])"

section \<open>The first implementation's tree renderer (\_v1-claude-code-pure/main.py)\<close>

text \<open>
  \<open>build_tree_string\<close> keeps the tree as nested dictionaries, here association lists in
  insertion order.  \<open>insert_parts\<close> is the chain of \<open>node.setdefault(part, {})\<close> along one
  path.
\<close>

datatype tree = Tree "(string \<times> tree) list"

fun insert_parts :: "string list \<Rightarrow> tree \<Rightarrow> tree" where
  "insert_parts [] node = node"
| "insert_parts (part # parts) (Tree kvs) =
     Tree (dict_set kvs part
       (insert_parts parts (case map_of kvs part of None \<Rightarrow> Tree [] | Some child \<Rightarrow> child)))"

definition build_tree :: "string list \<Rightarrow> tree" where
  "build_tree file_paths =
     fold (\<lambda>path. insert_parts (split_on CHR ''/'' path)) (sort file_paths) (Tree [])"

text \<open>
  \<open>_render\<close>: one line per entry in sorted order, each followed by the lines of its
  children when it has any.
\<close>

function render :: "tree \<Rightarrow> string \<Rightarrow> string list" where
  "render (Tree kvs) pre =
     (let entries = sort (map fst kvs) in
      concat (map (\<lambda>(i, name).
          let is_last = (i = length entries - 1);
              connector = (if is_last then ''`-- '' else ''|-- '')
          in (pre @ connector @ name) #
             (case map_of kvs name of
                None \<Rightarrow> []
              | Some child \<Rightarrow>
                  if child \<noteq> Tree []
                  then render child (pre @ (if is_last then ''    '' else ''|   ''))
                  else []))
        (enumerate 0 entries)))"
  by pat_completeness auto
termination
proof (relation "measure (\<lambda>(t, pre). size t)")
  show "wf (measure (\<lambda>(t, pre). size t))" by simp
next
  fix kvs :: "(string \<times> tree) list" and pre :: string and entries x i name is_last
    connector child
  assume "map_of kvs name = Some child"
  then have "(name, child) \<in> set kvs" by (rule map_of_SomeD)
  then have "size child < size (Tree kvs)"
    by (induction kvs) auto
  then show "((child, pre @ (if is_last then ''    '' else ''|   '')), Tree kvs, pre)
      \<in> measure (\<lambda>(t, pre). size t)"
    by simp
qed

text \<open>\<open>str(n)\<close> for a natural number.\<close>

fun str_nat :: "nat \<Rightarrow> string" where
  "str_nat n =
     (if n < 10 then [''0123456789'' ! n]
      else str_nat (n div 10) @ [''0123456789'' ! (n mod 10)])"

definition tree_lines :: "string list \<Rightarrow> string list" where
  "tree_lines file_paths = render (build_tree file_paths) []"

text \<open>\<open>if len(lines) > 200: lines = lines[:200] + [f"... and {len(lines) - 200} more entries"]\<close>.\<close>

definition cap_lines :: "string list \<Rightarrow> string list" where
  "cap_lines lines =
     (if length lines > 200
      then take 200 lines @ [''... and '' @ str_nat (length lines - 200) @ '' more entries'']
      else lines)"

definition build_tree_string :: "string list \<Rightarrow> string" where
  "build_tree_string file_paths = join NL (cap_lines (tree_lines file_paths))"

section \<open>The first implementation's content fetch (\_v1-claude-code-pure/main.py)\<close>

text \<open>
  \<open>fetch_file_content\<close> on what the request gave: \<open>None\<close> when it raised any exception, else
  the response with its status, its \<open>content-type\<close> header (absent or present) and its text.
  The function returns the text cut to \<open>MAX_FILE_CHARS\<close>, or \<open>None\<close>.
\<close>

definition MAX_CONTENT_CHARS :: nat where "MAX_CONTENT_CHARS = 120000"
definition MAX_FILE_CHARS :: nat where "MAX_FILE_CHARS = 8000"

record raw_response =
  rr_status_code :: int
  rr_content_type :: "string option"
  rr_text :: string

definition fetch_file_content :: "string \<Rightarrow> raw_response option \<Rightarrow> string option" where
  "fetch_file_content path got =
     (case got of
        None \<Rightarrow> None
      | Some resp \<Rightarrow>
          if rr_status_code resp \<noteq> 200 then None
          else
            let content_type = (case rr_content_type resp of None \<Rightarrow> [] | Some c \<Rightarrow> c) in
            if sublist ''application/octet-stream'' content_type
               \<and> \<not> (suffix ''.md'' path \<or> suffix ''.txt'' path \<or> suffix ''.rst'' path)
            then None
            else
              let text = rr_text resp in
              if CHR 0x00 \<in> set (take 1000 text) then None
              else Some (take MAX_FILE_CHARS text))"

text \<open>
  The loop of \<open>gather_repo_context\<close> over \<open>files_to_fetch\<close>, on the state \<open>(file_contents,
  total_chars)\<close>: it stops once the total has reached \<open>MAX_CONTENT_CHARS\<close>, and stores a
  content only when it is not \<open>None\<close> and not empty.
\<close>

fun gather_loop ::
  "(string \<Rightarrow> raw_response option) \<Rightarrow> string list
     \<Rightarrow> (string \<times> string) list \<times> nat \<Rightarrow> (string \<times> string) list \<times> nat" where
  "gather_loop get [] (file_contents, total_chars) = (file_contents, total_chars)"
| "gather_loop get (path # rest) (file_contents, total_chars) =
     (if total_chars \<ge> MAX_CONTENT_CHARS then (file_contents, total_chars)
      else
        (case fetch_file_content path (get path) of
           None \<Rightarrow> gather_loop get rest (file_contents, total_chars)
         | Some content \<Rightarrow>
             if content \<noteq> []
             then gather_loop get rest
                    (dict_set file_contents path content, total_chars + length content)
             else gather_loop get rest (file_contents, total_chars)))"

text \<open>
  Steps 3 to 5 of \<open>gather_repo_context\<close>, from the filtered and sorted candidate paths on:
  the tree string, the loop over the first \<open>MAX_FILES_TO_FETCH\<close> candidates and the sections
  of the context, joined by newlines.  No statement of these steps raises.
\<close>

definition MAX_FILES_TO_FETCH :: nat where "MAX_FILES_TO_FETCH = 60"

definition context_sections ::
  "string \<Rightarrow> string \<Rightarrow> string \<Rightarrow> (string \<times> string) list \<Rightarrow> string list" where
  "context_sections owner repo tree_str file_contents =
     [''# Repository: '' @ owner @ ''/'' @ repo @ NL,
      ''## Directory Structure'' @ NL @ ''```'',
      tree_str,
      ''```'' @ NL]
     @ (if file_contents \<noteq> []
        then [''## File Contents'' @ NL]
             @ concat (map (\<lambda>(path, content).
                 [''### '' @ path @ NL @ ''```'', content, ''```'' @ NL]) file_contents)
        else [])"

definition gather_repo_context ::
  "string \<Rightarrow> string \<Rightarrow> string list \<Rightarrow> (string \<Rightarrow> raw_response option) \<Rightarrow> string" where
  "gather_repo_context owner repo candidate_paths get =
     (let tree_str = build_tree_string candidate_paths;
          files_to_fetch = take MAX_FILES_TO_FETCH candidate_paths;
          file_contents = fst (gather_loop get files_to_fetch ([], 0))
      in join NL (context_sections owner repo tree_str file_contents))"

section \<open>The summarizer (app/services/llm\_summarizer.py)\<close>

text \<open>
  What \<open>json.loads\<close> returns, and the exceptions of \<open>summarize\<close>: the \<open>SummarizerError\<close> it
  raises itself, and the two built-in exceptions its last statements can raise, which it
  does not catch.  The message of the missing-fields error holds the set of missing names.
\<close>

datatype json =
    JNull
  | JBool bool
  | JNumber string
  | JString string
  | JArray "json list"
  | JObject "(string \<times> json) list"

datatype llm_exn = APITimeoutError | APIError string

datatype error_message = Message string | MissingFields "string list"

datatype summarizer_error =
    SummarizerError error_message int
  | AttributeError
  | TypeError

record summary_result =
  sr_summary :: string
  sr_technologies :: "json list"
  sr_structure :: string

text \<open>
  \<open>str.strip()\<close> removes the characters \<open>str.isspace\<close> accepts; among the code points below
  256 these are the ten of ASCII, the next-line character 0x85 and the no-break space 0xA0.
\<close>

definition is_space :: "char \<Rightarrow> bool" where
  "is_space c \<longleftrightarrow>
     c \<in> set [CHR 0x09, CHR 0x0A, CHR 0x0B, CHR 0x0C, CHR 0x0D,
               CHR 0x1C, CHR 0x1D, CHR 0x1E, CHR 0x1F, CHR 0x20,
               CHR 0x85, CHR 0xA0]"

definition strip :: "string \<Rightarrow> string" where
  "strip s = rev (dropWhile is_space (rev (dropWhile is_space s)))"

text \<open>The removal of a Markdown fence around the answer.\<close>

definition strip_fences :: "string \<Rightarrow> string" where
  "strip_fences raw_content =
     (let content = strip raw_content;
          content = (if prefix ''```'' content
                     then (if CHR 0x0A \<in> set content
                           then tl (dropWhile (\<lambda>c. c \<noteq> CHR 0x0A) content)
                           else drop 3 content)
                     else content);
          content = (if suffix ''```'' content
                     then take (length content - 3) content
                     else content)
      in strip content)"

text \<open>\<open>list(x)\<close> on a JSON value: numbers, booleans and \<open>None\<close> are not iterable.\<close>

definition py_list :: "json \<Rightarrow> summarizer_error + json list" where
  "py_list v =
     (case v of
        JArray xs \<Rightarrow> Inr xs
      | JString s \<Rightarrow> Inr (map (\<lambda>c. JString [c]) s)
      | JObject kvs \<Rightarrow> Inr (map (\<lambda>(k, x). JString k) kvs)
      | JNull \<Rightarrow> Inl TypeError
      | JBool b \<Rightarrow> Inl TypeError
      | JNumber n \<Rightarrow> Inl TypeError)"

text \<open>
  The part of \<open>summarize\<close> after the request, on the text of the first choice.
  \<open>json_loads\<close> is the JSON parser (\<open>None\<close> for \<open>JSONDecodeError\<close>) and \<open>py_str\<close> is
  \<open>str\<close> on a JSON value; both are parameters.
\<close>

definition parse_summary ::
  "(string \<Rightarrow> json option) \<Rightarrow> (json \<Rightarrow> string) \<Rightarrow> string
     \<Rightarrow> summarizer_error + summary_result" where
  "parse_summary json_loads py_str raw_content =
     (case json_loads (strip_fences raw_content) of
        None \<Rightarrow>
          Inl (SummarizerError
                 (Message ''LLM returned malformed response. Please try again.'') 502)
      | Some result \<Rightarrow>
          (case result of
             JObject kvs \<Rightarrow>
               let required = [''summary'', ''technologies'', ''structure''];
                   missing = filter (\<lambda>k. k \<notin> set (map fst kvs)) required
               in if missing \<noteq> []
                  then Inl (SummarizerError (MissingFields missing) 502)
                  else
                    (case py_list (the (map_of kvs ''technologies'')) of
                       Inl e \<Rightarrow> Inl e
                     | Inr technologies \<Rightarrow>
                         Inr \<lparr>sr_summary = py_str (the (map_of kvs ''summary'')),
                              sr_technologies = technologies,
                              sr_structure = py_str (the (map_of kvs ''structure''))\<rparr>)
           | JNull \<Rightarrow> Inl AttributeError
           | JBool b \<Rightarrow> Inl AttributeError
           | JNumber n \<Rightarrow> Inl AttributeError
           | JString s \<Rightarrow> Inl AttributeError
           | JArray xs \<Rightarrow> Inl AttributeError))"

text \<open>
  \<open>summarize\<close>.  \<open>created\<close> is the outcome of \<open>client.chat.completions.create\<close>: an exception,
  or the message contents of the choices of the response.
\<close>

definition summarize ::
  "settings \<Rightarrow> (string \<Rightarrow> json option) \<Rightarrow> (json \<Rightarrow> string)
     \<Rightarrow> llm_exn + string option list \<Rightarrow> summarizer_error + summary_result" where
  "summarize st json_loads py_str created =
     (if openai_api_key st = []
      then Inl (SummarizerError
                  (Message ''Server misconfiguration: LLM API key not set'') 500)
      else
        (case created of
           Inl APITimeoutError \<Rightarrow>
             Inl (SummarizerError (Message ''LLM request timed out. Please try again.'') 504)
         | Inl (APIError e) \<Rightarrow>
             Inl (SummarizerError (Message (''LLM summarization failed: '' @ e)) 502)
         | Inr choices \<Rightarrow>
             (case choices of
                [] \<Rightarrow> Inl (SummarizerError (Message ''LLM returned no choices'') 502)
              | first # rest \<Rightarrow>
                  (case first of
                     None \<Rightarrow>
                       Inl (SummarizerError (Message ''LLM returned empty response'') 502)
                   | Some raw_content \<Rightarrow>
                       if raw_content = []
                       then Inl (SummarizerError
                                   (Message ''LLM returned empty response'') 502)
                       else parse_summary json_loads py_str raw_content))))"

section \<open>Example requests\<close>

text \<open>
  A repository whose metadata and tree requests succeed, with three blobs: the content
  request of \<open>README.md\<close> times out, that of \<open>src/main.py\<close> answers 404 and that of
  \<open>src/util.py\<close> succeeds.
\<close>

definition example_settings :: settings where
  "example_settings = \<lparr>openai_api_key = ''key'', max_content_chars = 100000\<rparr>"

definition example_info :: repo_info where
  "example_info =
     \<lparr>ri_default_branch = None, ri_description = None, ri_stargazers_count = None,
      ri_forks_count = None, ri_language = None\<rparr>"

definition example_repo_get :: "repo_info json_response outcome" where
  "example_repo_get = Returns \<lparr>jr_status_code = 200, jr_json = Some example_info\<rparr>"

definition example_tree_items :: "tree_item list" where
  "example_tree_items =
     [\<lparr>ti_path = ''README.md'', ti_type = Some ''blob'', ti_size = Some 10\<rparr>,
      \<lparr>ti_path = ''src'', ti_type = Some ''tree'', ti_size = None\<rparr>,
      \<lparr>ti_path = ''src/main.py'', ti_type = Some ''blob'', ti_size = Some 20\<rparr>,
      \<lparr>ti_path = ''src/util.py'', ti_type = Some ''blob'', ti_size = Some 5\<rparr>]"

definition example_tree_get :: "tree_item list \<Rightarrow> string \<Rightarrow> tree_data json_response outcome" where
  "example_tree_get items branch =
     Returns \<lparr>jr_status_code = 200, jr_json = Some \<lparr>td_tree = Some items\<rparr>\<rparr>"

definition example_raw_get :: "string \<Rightarrow> string \<Rightarrow> content_response outcome" where
  "example_raw_get branch path =
     (if path = ''README.md'' then Raises TimeoutException
      else if path = ''src/main.py'' then Returns \<lparr>cr_status_code = 404, cr_text = ''Not Found''\<rparr>
      else Returns \<lparr>cr_status_code = 200, cr_text = ''x = 1''\<rparr>)"


text \<open>
  A content request that answers every path with status 200 and a text that begins with a
  NUL character, and requests of the first implementation: binary content for \<open>logo.dat\<close>,
  status 404 for \<open>gone.py\<close>, an exception for \<open>slow.py\<close>, a text for any other path.
\<close>

definition nul_raw_get :: "string \<Rightarrow> string \<Rightarrow> content_response outcome" where
  "nul_raw_get branch path =
     Returns \<lparr>cr_status_code = 200, cr_text = [CHR 0x00, CHR ''a'']\<rparr>"

definition example_get :: "string \<Rightarrow> raw_response option" where
  "example_get path =
     (if path = ''logo.dat''
      then Some \<lparr>rr_status_code = 200, rr_content_type = None,
                  rr_text = [CHR 0x00, CHR ''a'']\<rparr>
      else if path = ''gone.py''
      then Some \<lparr>rr_status_code = 404, rr_content_type = None, rr_text = ''Not Found''\<rparr>
      else if path = ''slow.py'' then None
      else Some \<lparr>rr_status_code = 200, rr_content_type = Some ''text/plain'',
                  rr_text = ''x = 1''\<rparr>)"

text \<open>A JSON parser as far as the examples need one: it reads \<open>[]\<close> as the empty array.\<close>

definition example_json_loads :: "string \<Rightarrow> json option" where
  "example_json_loads s = (if s = ''[]'' then Some (JArray []) else None)"

section \<open>Properties of the selection loop\<close>

lemma tuple_le_iff: "tuple_le a b \<longleftrightarrow> a \<le> b"
  by (cases a; cases b) (auto simp: tuple_le_def less_eq_prod_def less_prod_def)




text \<open>The loop only appends, and what it appends is a subsequence of the candidates.\<close>

lemma select_loop_extends:
  "\<exists>ys. fst (select_loop m fs (sel, tot)) = sel @ ys \<and> subseq ys fs"
proof (induction fs arbitrary: sel tot)
  case Nil
  then show ?case by simp
next
  case (Cons f fs)
  show ?case
  proof (cases "tot + get_size f > m \<and> sel \<noteq> []")
    case True
    with Cons[of sel tot] show ?thesis by (auto simp: Let_def)
  next
    case False
    from Cons[of "sel @ [f]" "tot + get_size f"] obtain ys where
      "fst (select_loop m fs (sel @ [f], tot + get_size f)) = (sel @ [f]) @ ys" "subseq ys fs"
      by blast
    with False show ?thesis by (auto simp: Let_def intro!: exI[of _ "f # ys"])
  qed
qed


lemma selected_subseq: "subseq (rank_and_select_files files B) (eligible_sorted files)"
  using select_loop_extends[of B "eligible_sorted files" "[]" 0]
  by (auto simp: rank_and_select_files_def select_state_def)

lemma set_eligible_sorted: "set (eligible_sorted files) = set (eligible files)"
  by (simp add: eligible_sorted_def)

lemma set_eligible:
  "set (eligible files) = {f \<in> set files. \<not> should_exclude_path (fi_path f)
     \<and> get_file_priority (fi_path f) \<noteq> PRIORITY_SKIP}"
  by (auto simp: eligible_def)

lemma subseq_subset: "subseq xs ys \<Longrightarrow> set xs \<subseteq> set ys"
  by (induction rule: list_emb.induct) auto

lemma subseq_sorted_wrt: "subseq xs ys \<Longrightarrow> sorted_wrt P ys \<Longrightarrow> sorted_wrt P xs"
  by (induction rule: list_emb.induct) (auto dest: subseq_subset)

section \<open>Budget respected or minimally violated\<close>



section \<open>At least one file\<close>



section \<open>Order of the selection\<close>

text \<open>The key of an entry is the tuple of these four components, in this order.\<close>

lemma sort_key_of_components:
  "sort_key_of f =
     (get_file_priority (fi_path f),
      (if last (split_on CHR ''/'' (fi_path f)) \<in> set TIER3_ENTRY_POINTS then 0 else (1::int)),
      int (count_list (fi_path f) CHR ''/''),
      get_size f)"
  by (simp add: sort_key_of_def Let_def)

text \<open>
  C4. The list \<open>rank_and_select_files\<close> returns is ascending in the tuple (priority tier,
  not-entry-point flag, path depth, size), compared component by component as \<open>tuple_le\<close>
  writes it out: a smaller tier number (a higher tier) first, within a tier the entry-point
  file names (flag 0) before the others (flag 1), then the paths with fewer separators, then
  the smaller sizes.  The entries whose four components are equal stand in the result in the
  order they had in the input, since the sort is stable and the walk keeps the order.  The
  result is a function of the input list and the budget.
\<close>

theorem selection_sorted_and_stable:
  "sorted_wrt tuple_le
     (map (\<lambda>f. (get_file_priority (fi_path f),
                 (if last (split_on CHR ''/'' (fi_path f)) \<in> set TIER3_ENTRY_POINTS
                  then 0 else (1::int)),
                 int (count_list (fi_path f) CHR ''/''),
                 get_size f))
        (rank_and_select_files files B))
   \<and> (\<forall>k. subseq
          (filter (\<lambda>f. (get_file_priority (fi_path f),
                          (if last (split_on CHR ''/'' (fi_path f)) \<in> set TIER3_ENTRY_POINTS
                           then 0 else (1::int)),
                          int (count_list (fi_path f) CHR ''/''),
                          get_size f) = k)
             (rank_and_select_files files B))
          (filter (\<lambda>f. (get_file_priority (fi_path f),
                          (if last (split_on CHR ''/'' (fi_path f)) \<in> set TIER3_ENTRY_POINTS
                           then 0 else (1::int)),
                          int (count_list (fi_path f) CHR ''/''),
                          get_size f) = k)
             files))"
proof -
  have "sorted (map sort_key_of (eligible_sorted files))"
    by (simp add: eligible_sorted_def)
  then have "sorted_wrt (\<lambda>f g. tuple_le (sort_key_of f) (sort_key_of g)) (eligible_sorted files)"
    by (simp add: sorted_wrt_map tuple_le_iff)
  then have "sorted_wrt (\<lambda>f g. tuple_le (sort_key_of f) (sort_key_of g))
      (rank_and_select_files files B)"
    using selected_subseq subseq_sorted_wrt by blast
  then have ordered: "sorted_wrt tuple_le (map sort_key_of (rank_and_select_files files B))"
    by (simp add: sorted_wrt_map)
  have stable: "subseq (filter (\<lambda>f. sort_key_of f = k) (rank_and_select_files files B))
                   (filter (\<lambda>f. sort_key_of f = k) files)" for k
  proof -
    have "subseq (filter (\<lambda>f. sort_key_of f = k) (rank_and_select_files files B))
            (filter (\<lambda>f. sort_key_of f = k) (eligible_sorted files))"
      by (rule subseq_filter[OF selected_subseq])
    also have "filter (\<lambda>f. sort_key_of f = k) (eligible_sorted files)
        = filter (\<lambda>f. sort_key_of f = k) (eligible files)"
      by (simp add: eligible_sorted_def sort_key_stable)
    also have "subseq (filter (\<lambda>f. sort_key_of f = k) (eligible files))
        (filter (\<lambda>f. sort_key_of f = k) files)"
      by (intro subseq_filter) (simp add: eligible_def)
    finally show ?thesis .
  qed
  from ordered stable show ?thesis
    unfolding sort_key_of_components by blast
qed

text \<open>
  Eight entries given in the reverse of their rank.  The result begins with the README
  (tier 1) and the manifest (tier 2); within tier 3 the entry point \<open>src/main.py\<close> comes
  first although it is the largest, then the files of depth 1 by size, \<open>src/a.py\<close> before
  \<open>src/c.py\<close> as in the input since their keys are equal, then the deeper file; the test
  file (tier 4) is last.
\<close>

theorem selection_sorted_and_stable_witness:
  "rank_and_select_files
     [\<lparr>fi_path = ''tests/test_app.py'', fi_size = Some 10\<rparr>,
      \<lparr>fi_path = ''src/pkg/deep.py'', fi_size = Some 10\<rparr>,
      \<lparr>fi_path = ''src/b.py'', fi_size = Some 9\<rparr>,
      \<lparr>fi_path = ''src/a.py'', fi_size = Some 5\<rparr>,
      \<lparr>fi_path = ''src/c.py'', fi_size = Some 5\<rparr>,
      \<lparr>fi_path = ''src/main.py'', fi_size = Some 50\<rparr>,
      \<lparr>fi_path = ''package.json'', fi_size = Some 10\<rparr>,
      \<lparr>fi_path = ''README.md'', fi_size = Some 10\<rparr>] 10000
   = [\<lparr>fi_path = ''README.md'', fi_size = Some 10\<rparr>,
      \<lparr>fi_path = ''package.json'', fi_size = Some 10\<rparr>,
      \<lparr>fi_path = ''src/main.py'', fi_size = Some 50\<rparr>,
      \<lparr>fi_path = ''src/a.py'', fi_size = Some 5\<rparr>,
      \<lparr>fi_path = ''src/c.py'', fi_size = Some 5\<rparr>,
      \<lparr>fi_path = ''src/b.py'', fi_size = Some 9\<rparr>,
      \<lparr>fi_path = ''src/pkg/deep.py'', fi_size = Some 10\<rparr>,
      \<lparr>fi_path = ''tests/test_app.py'', fi_size = Some 10\<rparr>]
   \<and> sorted_wrt tuple_le
        [(1, 1, 0, 10), (2, 1, 0, 10), (3, 0, 1, 50), (3, 1, 1, 5), (3, 1, 1, 5),
         (3, 1, 1, 9), (3, 1, 2, 10), (4, 1, 1, 10)]
   \<and> \<not> tuple_le (4, 1, 1, 10) (1, 1, 0, 10)
   \<and> \<not> tuple_le (3, 1, 1, 5) (3, 0, 1, 50)
   \<and> \<not> tuple_le (3, 1, 2, 10) (3, 1, 1, 9)
   \<and> \<not> tuple_le (3, 1, 1, 9) (3, 1, 1, 5)"
proof -
  let ?files = "[\<lparr>fi_path = ''tests/test_app.py'', fi_size = Some 10\<rparr>,
      \<lparr>fi_path = ''src/pkg/deep.py'', fi_size = Some 10\<rparr>,
      \<lparr>fi_path = ''src/b.py'', fi_size = Some 9\<rparr>,
      \<lparr>fi_path = ''src/a.py'', fi_size = Some 5\<rparr>,
      \<lparr>fi_path = ''src/c.py'', fi_size = Some 5\<rparr>,
      \<lparr>fi_path = ''src/main.py'', fi_size = Some 50\<rparr>,
      \<lparr>fi_path = ''package.json'', fi_size = Some 10\<rparr>,
      \<lparr>fi_path = ''README.md'', fi_size = Some (10::int)\<rparr>]"
  let ?result = "[\<lparr>fi_path = ''README.md'', fi_size = Some 10\<rparr>,
      \<lparr>fi_path = ''package.json'', fi_size = Some 10\<rparr>,
      \<lparr>fi_path = ''src/main.py'', fi_size = Some 50\<rparr>,
      \<lparr>fi_path = ''src/a.py'', fi_size = Some 5\<rparr>,
      \<lparr>fi_path = ''src/c.py'', fi_size = Some 5\<rparr>,
      \<lparr>fi_path = ''src/b.py'', fi_size = Some 9\<rparr>,
      \<lparr>fi_path = ''src/pkg/deep.py'', fi_size = Some 10\<rparr>,
      \<lparr>fi_path = ''tests/test_app.py'', fi_size = Some (10::int)\<rparr>]"
  have run: "rank_and_select_files ?files 10000 = ?result"
    by code_simp
  have keys: "map (\<lambda>f. (get_file_priority (fi_path f),
                 (if last (split_on CHR ''/'' (fi_path f)) \<in> set TIER3_ENTRY_POINTS
                  then 0 else (1::int)),
                 int (count_list (fi_path f) CHR ''/''),
                 get_size f)) ?result
      = [(1, 1, 0, 10), (2, 1, 0, 10), (3, 0, 1, 50), (3, 1, 1, 5), (3, 1, 1, 5),
         (3, 1, 1, 9), (3, 1, 2, 10), (4, 1, 1, 10)]"
    by code_simp
  from selection_sorted_and_stable[of ?files 10000]
  have "sorted_wrt tuple_le
        [(1, 1, 0, 10), (2, 1, 0, 10), (3, 0, 1, 50), (3, 1, 1, 5), (3, 1, 1, 5),
         (3, 1, 1, 9), (3, 1, 2, 10), (4, 1, 1, 10)]"
    unfolding run keys by blast
  moreover have "\<not> tuple_le (4, 1, 1, 10) (1, 1, 0, 10)"
    "\<not> tuple_le (3, 1, 1, 5) (3, 0, 1, 50)"
    "\<not> tuple_le (3, 1, 2, 10) (3, 1, 1, 9)"
    "\<not> tuple_le (3, 1, 1, 9) (3, 1, 1, 5)"
    by (simp_all add: tuple_le_def)
  ultimately show ?thesis using run by simp
qed

section \<open>The selector filters by itself\<close>

text \<open>
  C9. Whatever list it is given, every entry \<open>rank_and_select_files\<close> returns is eligible:
  its path is not excluded and its priority is not Skip.  Its caller \<open>fetch_repo_data\<close>
  relies on that: the list it passes holds every blob of the tree listing, excluded ones
  included, and what it fetches is the selector's result on that list.
\<close>

theorem selected_entries_eligible:
  "(\<forall>f \<in> set (rank_and_select_files files B).
      \<not> should_exclude_path (fi_path f) \<and> get_file_priority (fi_path f) \<noteq> PRIORITY_SKIP)
   \<and> map fi_path (file_items_of tree_items)
       = map ti_path (filter (\<lambda>item. ti_type item = Some ''blob'') tree_items)
   \<and> (\<forall>f \<in> set (selected_files_of st tree_items).
        \<not> should_exclude_path (fi_path f) \<and> get_file_priority (fi_path f) \<noteq> PRIORITY_SKIP)"
proof -
  have sel: "\<forall>f \<in> set (rank_and_select_files fs C).
      \<not> should_exclude_path (fi_path f) \<and> get_file_priority (fi_path f) \<noteq> PRIORITY_SKIP"
    for fs C
    using subseq_subset[OF selected_subseq[of fs C]] set_eligible_sorted[of fs]
      set_eligible[of fs]
    by auto
  have "map fi_path (file_items_of tree_items)
       = map ti_path (filter (\<lambda>item. ti_type item = Some ''blob'') tree_items)"
    by (simp add: file_items_of_def comp_def)
  with sel show ?thesis
    unfolding selected_files_of_def by blast
qed

text \<open>
  A listing with an excluded blob, a blob of the Skip priority and a directory: all blobs
  reach the selector, and only the eligible one comes back.
\<close>

theorem selected_entries_eligible_witness:
  "map fi_path (file_items_of
      [\<lparr>ti_path = ''README.md'', ti_type = Some ''blob'', ti_size = Some 10\<rparr>,
       \<lparr>ti_path = ''node_modules/x.js'', ti_type = Some ''blob'', ti_size = Some 10\<rparr>,
       \<lparr>ti_path = ''LICENSE'', ti_type = Some ''blob'', ti_size = Some 10\<rparr>,
       \<lparr>ti_path = ''src'', ti_type = Some ''tree'', ti_size = None\<rparr>])
     = [''README.md'', ''node_modules/x.js'', ''LICENSE'']
   \<and> rank_and_select_files
        [\<lparr>fi_path = ''README.md'', fi_size = Some 10\<rparr>,
         \<lparr>fi_path = ''node_modules/x.js'', fi_size = Some 10\<rparr>,
         \<lparr>fi_path = ''LICENSE'', fi_size = Some 10\<rparr>] 10000
       = [\<lparr>fi_path = ''README.md'', fi_size = Some 10\<rparr>]
   \<and> \<not> should_exclude_path ''README.md''
   \<and> get_file_priority ''README.md'' \<noteq> PRIORITY_SKIP"
proof -
  let ?items = "[\<lparr>ti_path = ''README.md'', ti_type = Some ''blob'', ti_size = Some 10\<rparr>,
       \<lparr>ti_path = ''node_modules/x.js'', ti_type = Some ''blob'', ti_size = Some 10\<rparr>,
       \<lparr>ti_path = ''LICENSE'', ti_type = Some ''blob'', ti_size = Some 10\<rparr>,
       \<lparr>ti_path = ''src'', ti_type = Some ''tree'', ti_size = None\<rparr>]"
  let ?files = "[\<lparr>fi_path = ''README.md'', fi_size = Some 10\<rparr>,
         \<lparr>fi_path = ''node_modules/x.js'', fi_size = Some 10\<rparr>,
         \<lparr>fi_path = ''LICENSE'', fi_size = Some (10::int)\<rparr>]"
  have r: "rank_and_select_files ?files 10000 = [\<lparr>fi_path = ''README.md'', fi_size = Some 10\<rparr>]"
    by code_simp
  from selected_entries_eligible[of ?files 10000 ?items] r show ?thesis
    by simp
qed

section \<open>Tier 1\<close>

text \<open>
  C3, as the code has it.  \<open>get_file_priority\<close> gives Tier 1 exactly when the upper-cased
  file name starts with \<open>README\<close>.  Each of the four canonical names has that prefix, in any
  letter case; so have other names, and no name without the prefix is Tier 1.
\<close>

theorem tier1_iff_readme_prefix:
  "(get_file_priority path = PRIORITY_TIER1
      \<longleftrightarrow> prefix ''README'' (upper (last (split_on CHR ''/'' path))))
   \<and> list_all (\<lambda>name. prefix ''README'' (upper name)) TIER1_FILENAMES"
proof
  show "get_file_priority path = PRIORITY_TIER1
      \<longleftrightarrow> prefix ''README'' (upper (last (split_on CHR ''/'' path)))"
    by (simp add: get_file_priority_def Let_def PRIORITY_TIER1_def PRIORITY_TIER2_def
        PRIORITY_TIER3_def PRIORITY_TIER4_def PRIORITY_SKIP_def)
next
  show "list_all (\<lambda>name. prefix ''README'' (upper name)) TIER1_FILENAMES"
    by code_simp
qed

text \<open>
  The claim as it was stated fails: \<open>docs/README.markdown\<close> is Tier 1, and its file name is
  none of the canonical names, in whatever letter case.
\<close>

theorem tier1_canonical_names_counterexample:
  "get_file_priority ''docs/README.markdown'' = PRIORITY_TIER1
   \<and> upper (last (split_on CHR ''/'' ''docs/README.markdown''))
       \<notin> set (map upper TIER1_FILENAMES)"
  by code_simp

section \<open>The ceiling of the tree renderers\<close>

lemma fold_dir_step_length:
  "length (snd st) \<le> length (snd (fold (dir_step parts) is st))"
proof (induction "is" arbitrary: st)
  case Nil
  then show ?case by simp
next
  case (Cons i "is")
  have "length (snd st) \<le> length (snd (dir_step parts i st))"
    by (cases st) (simp add: dir_step_def Let_def)
  with Cons[of "dir_step parts i st"] show ?case by simp
qed

lemma path_step_length: "Suc (length (snd st)) \<le> length (snd (path_step p st))"
proof -
  let ?parts = "split_on CHR ''/'' p"
  obtain seen ls where f: "fold (dir_step ?parts) [0..<length ?parts - 1] st = (seen, ls)"
    by (cases "fold (dir_step ?parts) [0..<length ?parts - 1] st")
  from fold_dir_step_length[of st ?parts "[0..<length ?parts - 1]"] f
  have "length (snd st) \<le> length ls" by simp
  with f show ?thesis by (simp add: path_step_def Let_def)
qed

lemma fold_path_step_length:
  "length ps + length (snd st) \<le> length (snd (fold path_step ps st))"
proof (induction ps arbitrary: st)
  case Nil
  then show ?case by simp
next
  case (Cons p ps)
  from Cons[of "path_step p st"] path_step_length[of st p] show ?case by simp
qed

lemma directory_tree_lines_length: "length paths \<le> length (directory_tree_lines paths)"
  using fold_path_step_length[of "sort paths" "({}, [])"]
  by (simp add: directory_tree_lines_def)

text \<open>
  C6, as the code has it.  The first implementation's \<open>build_tree_string\<close> has the ceiling:
  it never joins more than 201 lines; when the full rendering \<open>tree_lines\<close> has more than
  200 lines the output is its first 200 lines and one summary line that gives the number of
  lines left out, the total minus 200; otherwise the output is the full rendering.  The
  application's \<open>build_directory_tree\<close> has no ceiling: it joins every line, at least one per
  path.
\<close>

theorem tree_ceiling_first_implementation_only:
  "length (cap_lines (tree_lines paths)) \<le> 201
   \<and> build_tree_string paths =
       join NL (if length (tree_lines paths) > 200
                then take 200 (tree_lines paths)
                     @ [''... and '' @ str_nat (length (tree_lines paths) - 200)
                        @ '' more entries'']
                else tree_lines paths)
   \<and> build_directory_tree paths = join NL (directory_tree_lines paths)
   \<and> length paths \<le> length (directory_tree_lines paths)"
proof (intro conjI)
  show "length (cap_lines (tree_lines paths)) \<le> 201"
    by (simp add: cap_lines_def)
  show "build_tree_string paths =
       join NL (if length (tree_lines paths) > 200
                then take 200 (tree_lines paths)
                     @ [''... and '' @ str_nat (length (tree_lines paths) - 200)
                        @ '' more entries'']
                else tree_lines paths)"
    by (simp add: build_tree_string_def cap_lines_def)
  show "build_directory_tree paths = join NL (directory_tree_lines paths)"
    by (simp add: build_directory_tree_def directory_tree_lines_def)
  show "length paths \<le> length (directory_tree_lines paths)"
    by (rule directory_tree_lines_length)
qed

text \<open>
  The claim as it was stated fails on \<open>build_directory_tree\<close>: for the 202 paths \<open>f100\<close> to
  \<open>f301\<close> its output has 202 lines, more than the ceiling and its summary line allow.
\<close>

theorem build_directory_tree_ceiling_counterexample:
  "\<not> length (split_on (CHR 0x0A)
        (build_directory_tree (map (\<lambda>n. ''f'' @ str_nat n) [100..<302]))) \<le> 201"
  by code_simp

section \<open>The content mapping\<close>

lemma map_of_dict_set: "map_of (dict_set kvs k v) = (map_of kvs)(k \<mapsto> v)"
  by (induction kvs) (auto simp: fun_eq_iff)

lemma keys_dict_set: "fst ` set (dict_set kvs k v) = insert k (fst ` set kvs)"
proof -
  have "fst ` set (dict_set kvs k v) = dom (map_of (dict_set kvs k v))"
    by (simp add: dom_map_of_conv_image_fst)
  also have "\<dots> = insert k (dom (map_of kvs))"
    by (simp add: map_of_dict_set)
  finally show ?thesis by (simp add: dom_map_of_conv_image_fst)
qed


text \<open>One turn of the loop: a fetched file is stored, a failed one only recorded.\<close>

lemma fetch_step_cases:
  "fetch_step get f (fc, fd) =
     (if fetch_ok get (fi_path f)
      then (dict_set fc (fi_path f) (truncate_text (fetched_text get (fi_path f))), fd)
      else (fc, fd @ [fi_path f]))"
  by (simp add: fetch_ok_def fetched_text_def Let_def split: outcome.splits)

lemma fetch_fold_keys:
  "fst ` set (fst (fold (fetch_step get) fs (fc, fd)))
     = fst ` set fc \<union> {fi_path f | f. f \<in> set fs \<and> fetch_ok get (fi_path f)}"
  by (induction fs arbitrary: fc fd)
    (auto simp del: fetch_step.simps simp: fetch_step_cases keys_dict_set)

lemma fetch_fold_failed:
  "snd (fold (fetch_step get) fs (fc, fd))
     = fd @ map fi_path (filter (\<lambda>f. \<not> fetch_ok get (fi_path f)) fs)"
  by (induction fs arbitrary: fc fd)
    (auto simp del: fetch_step.simps simp: fetch_step_cases)

lemma fetch_fold_lookup:
  "map_of (fst (fold (fetch_step get) fs (fc, fd))) p
     = (if p \<in> fi_path ` set fs \<and> fetch_ok get p
        then Some (truncate_text (fetched_text get p)) else map_of fc p)"
  by (induction fs arbitrary: fc fd)
    (auto simp del: fetch_step.simps simp: fetch_step_cases map_of_dict_set)




lemma example_selected:
  "selected_files_of example_settings example_tree_items
     = [\<lparr>fi_path = ''README.md'', fi_size = Some 10\<rparr>,
        \<lparr>fi_path = ''src/main.py'', fi_size = Some 20\<rparr>,
        \<lparr>fi_path = ''src/util.py'', fi_size = Some 5\<rparr>]"
  by code_simp

section \<open>Fetch failures are swallowed\<close>

text \<open>
  The first implementation: what makes \<open>fetch_file_content\<close> return \<open>None\<close>, and what its
  loop does with a path whose fetch returned \<open>None\<close>.
\<close>

lemma fetch_file_content_failures:
  "fetch_file_content path None = None"
  "rr_status_code resp \<noteq> 200 \<Longrightarrow> fetch_file_content path (Some resp) = None"
  "CHR 0x00 \<in> set (take 1000 (rr_text resp)) \<Longrightarrow> fetch_file_content path (Some resp) = None"
  "rr_content_type resp = Some content_type
     \<Longrightarrow> sublist ''application/octet-stream'' content_type
     \<Longrightarrow> \<not> (suffix ''.md'' path \<or> suffix ''.txt'' path \<or> suffix ''.rst'' path)
     \<Longrightarrow> fetch_file_content path (Some resp) = None"
  by (simp_all add: fetch_file_content_def Let_def)

lemma gather_loop_keys:
  "fst ` set (fst (gather_loop get paths (fc, tot)))
     \<subseteq> fst ` set fc \<union> {p \<in> set paths. fetch_file_content p (get p) \<noteq> None}"
proof (induction paths arbitrary: fc tot)
  case Nil
  then show ?case by simp
next
  case (Cons p ps)
  show ?case
  proof (cases "fetch_file_content p (get p)")
    case None
    with Cons[of fc tot] show ?thesis by auto
  next
    case (Some content)
    with Cons[of fc tot] Cons[of "dict_set fc p content" "tot + length content"]
    show ?thesis by (auto simp: keys_dict_set)
  qed
qed

lemma gather_loop_omits_failure:
  "fetch_file_content path (get path) = None
     \<Longrightarrow> path \<notin> fst ` set (fst (gather_loop get paths ([], 0)))"
  using gather_loop_keys[of get paths "[]" 0] by auto

lemma gather_loop_skips_failure:
  "fetch_file_content path (get path) = None \<Longrightarrow> total_chars < MAX_CONTENT_CHARS \<Longrightarrow>
   gather_loop get (path # rest) (fc, total_chars) = gather_loop get rest (fc, total_chars)"
  by simp

text \<open>
  C7, as the code has it.  In \<open>fetch_repo_data\<close>, once the metadata and the tree listing
  have arrived, a content fetch fails by a timeout, an HTTP error or a status other than
  200, and such a failure stays local: the path is left out of \<open>file_contents\<close> and noted in
  \<open>failed_downloads\<close>, every selected file whose fetch succeeds is stored all the same, and
  the function raises an error only when \<open>file_contents\<close> and the directory tree are both
  empty, and then it is the one error \<open>EmptyResult\<close> (status 422); otherwise it returns the
  data with exactly the contents fetched.  \<open>fetch_repo_data\<close> has no binary-content
  heuristic: a response of status 200 is stored whatever its text.  The heuristic is in the
  first implementation's \<open>fetch_file_content\<close>, which returns \<open>None\<close> on an exception, on a
  status other than 200, on a NUL among the first 1000 characters and on an octet-stream
  content type of a path that is no \<open>.md\<close>, \<open>.txt\<close> or \<open>.rst\<close>; its loop leaves such a path out
  of the mapping and goes on with the next one, and \<open>gather_repo_context\<close> has no
  \<open>EmptyResult\<close>: with no candidate path it returns a context with an empty tree.
\<close>

theorem fetch_failures_swallowed:
  assumes repo_ok: "repo_get = Returns \<lparr>jr_status_code = 200, jr_json = Some info\<rparr>"
    and branch: "branch = (case ri_default_branch info of None \<Rightarrow> ''main'' | Some b \<Rightarrow> b)"
    and tree_ok: "tree_get branch
        = Returns \<lparr>jr_status_code = 200, jr_json = Some \<lparr>td_tree = Some tree_items\<rparr>\<rparr>"
    and selected: "selected = selected_files_of st tree_items"
    and contents: "contents = fst (fetch_contents (raw_get branch) selected)"
    and failed: "failed = snd (fetch_contents (raw_get branch) selected)"
    and tree: "tree = build_directory_tree (all_paths_of tree_items)"
  shows "(\<forall>f \<in> set selected. \<not> fetch_ok (raw_get branch) (fi_path f)
            \<longrightarrow> fi_path f \<notin> fst ` set contents \<and> fi_path f \<in> set failed)
       \<and> (\<forall>f \<in> set selected. fetch_ok (raw_get branch) (fi_path f)
            \<longrightarrow> map_of contents (fi_path f)
                 = Some (truncate_text (fetched_text (raw_get branch) (fi_path f))))
       \<and> (case fetch_repo_data st owner repo repo_get tree_get raw_get of
            Inl e \<Rightarrow> e = EmptyResult \<and> contents = [] \<and> tree = []
          | Inr rd \<Rightarrow> rd_file_contents rd = contents \<and> rd_directory_tree rd = tree
                     \<and> \<not> (contents = [] \<and> tree = []))
       \<and> (\<forall>f \<in> set selected. \<forall>text.
             raw_get branch (fi_path f) = Returns \<lparr>cr_status_code = 200, cr_text = text\<rparr>
             \<longrightarrow> map_of contents (fi_path f) = Some (truncate_text text))
       \<and> fetch_file_content path None = None
       \<and> (rr_status_code resp \<noteq> 200 \<longrightarrow> fetch_file_content path (Some resp) = None)
       \<and> (CHR 0x00 \<in> set (take 1000 (rr_text resp))
            \<longrightarrow> fetch_file_content path (Some resp) = None)
       \<and> (rr_content_type resp = Some content_type
            \<and> sublist ''application/octet-stream'' content_type
            \<and> \<not> (suffix ''.md'' path \<or> suffix ''.txt'' path \<or> suffix ''.rst'' path)
            \<longrightarrow> fetch_file_content path (Some resp) = None)
       \<and> (fetch_file_content path (get path) = None
            \<longrightarrow> path \<notin> fst ` set (fst (gather_loop get paths ([], 0))))
       \<and> (fetch_file_content path (get path) = None \<and> total_chars < MAX_CONTENT_CHARS
            \<longrightarrow> gather_loop get (path # rest) (fc, total_chars)
                 = gather_loop get rest (fc, total_chars))
       \<and> gather_repo_context ''o'' ''r'' [] get
           = ''# Repository: o/r'' @ NL @ NL @ ''## Directory Structure'' @ NL @ ''```''
             @ NL @ NL @ ''```'' @ NL"
proof (intro conjI)
  show "\<forall>f \<in> set selected. \<not> fetch_ok (raw_get branch) (fi_path f)
            \<longrightarrow> fi_path f \<notin> fst ` set contents \<and> fi_path f \<in> set failed"
    using fetch_fold_keys[of "raw_get branch" selected "[]" "[]"]
      fetch_fold_failed[of "raw_get branch" selected "[]" "[]"]
    by (auto simp: contents failed fetch_contents_def)
  show stored: "\<forall>f \<in> set selected. fetch_ok (raw_get branch) (fi_path f)
            \<longrightarrow> map_of contents (fi_path f)
                 = Some (truncate_text (fetched_text (raw_get branch) (fi_path f)))"
    using fetch_fold_lookup[of "raw_get branch" selected "[]" "[]"]
    by (auto simp: contents fetch_contents_def)
  have "fetch_repo_data st owner repo repo_get tree_get raw_get
      = assemble_repo_data st owner repo info branch tree_items (raw_get branch)"
    using tree_ok by (simp add: fetch_repo_data_def repo_ok branch[symmetric])
  then show "case fetch_repo_data st owner repo repo_get tree_get raw_get of
            Inl e \<Rightarrow> e = EmptyResult \<and> contents = [] \<and> tree = []
          | Inr rd \<Rightarrow> rd_file_contents rd = contents \<and> rd_directory_tree rd = tree
                     \<and> \<not> (contents = [] \<and> tree = [])"
    by (simp add: assemble_repo_data_def Let_def EmptyResult_def contents selected tree)
  show "\<forall>f \<in> set selected. \<forall>text.
             raw_get branch (fi_path f) = Returns \<lparr>cr_status_code = 200, cr_text = text\<rparr>
             \<longrightarrow> map_of contents (fi_path f) = Some (truncate_text text)"
  proof (intro ballI allI impI)
    fix f body
    assume f: "f \<in> set selected"
      and r: "raw_get branch (fi_path f) = Returns \<lparr>cr_status_code = 200, cr_text = body\<rparr>"
    from r have "fetch_ok (raw_get branch) (fi_path f)"
      and "fetched_text (raw_get branch) (fi_path f) = body"
      by (simp_all add: fetch_ok_def fetched_text_def)
    with stored f show "map_of contents (fi_path f) = Some (truncate_text body)"
      by auto
  qed
  show "fetch_file_content path None = None"
    by (rule fetch_file_content_failures)
  show "rr_status_code resp \<noteq> 200 \<longrightarrow> fetch_file_content path (Some resp) = None"
    by (simp add: fetch_file_content_failures)
  show "CHR 0x00 \<in> set (take 1000 (rr_text resp))
            \<longrightarrow> fetch_file_content path (Some resp) = None"
    by (simp add: fetch_file_content_failures)
  show "rr_content_type resp = Some content_type
            \<and> sublist ''application/octet-stream'' content_type
            \<and> \<not> (suffix ''.md'' path \<or> suffix ''.txt'' path \<or> suffix ''.rst'' path)
            \<longrightarrow> fetch_file_content path (Some resp) = None"
    using fetch_file_content_failures(4)[of resp content_type path] by blast
  show "fetch_file_content path (get path) = None
            \<longrightarrow> path \<notin> fst ` set (fst (gather_loop get paths ([], 0)))"
    using gather_loop_omits_failure[of path get paths] by blast
  show "fetch_file_content path (get path) = None \<and> total_chars < MAX_CONTENT_CHARS
            \<longrightarrow> gather_loop get (path # rest) (fc, total_chars)
                 = gather_loop get rest (fc, total_chars)"
    using gather_loop_skips_failure[of path get total_chars rest fc] by blast
  show "gather_repo_context ''o'' ''r'' [] get
           = ''# Repository: o/r'' @ NL @ NL @ ''## Directory Structure'' @ NL @ ''```''
             @ NL @ NL @ ''```'' @ NL"
    by (simp add: gather_repo_context_def context_sections_def build_tree_string_def
        tree_lines_def build_tree_def cap_lines_def NL_def Let_def)
qed

text \<open>
  On the example repository the two failed paths are left out and the third file is
  returned; on a listing with nothing but an excluded file the result is \<open>EmptyResult\<close>.  In
  the first implementation the paths with binary content, with status 404 and with an
  exception are left out, and the path after them is fetched.
\<close>

theorem fetch_failures_swallowed_witness:
  "(\<exists>rd. fetch_repo_data example_settings ''o'' ''r'' example_repo_get
            (example_tree_get example_tree_items) example_raw_get = Inr rd
         \<and> rd_file_contents rd = [(''src/util.py'', ''x = 1'')])
   \<and> snd (fetch_contents (example_raw_get ''main'')
            (selected_files_of example_settings example_tree_items))
       = [''README.md'', ''src/main.py'']
   \<and> fetch_repo_data example_settings ''o'' ''r'' example_repo_get
        (example_tree_get
           [\<lparr>ti_path = ''node_modules/x.js'', ti_type = Some ''blob'', ti_size = Some 3\<rparr>])
        example_raw_get = Inl EmptyResult
   \<and> fetch_file_content ''logo.dat'' (example_get ''logo.dat'') = None
   \<and> ''logo.dat'' \<notin> fst ` set (fst (gather_loop example_get
         [''logo.dat'', ''gone.py'', ''slow.py'', ''ok.py''] ([], 0)))
   \<and> gather_loop example_get [''logo.dat'', ''gone.py'', ''slow.py'', ''ok.py''] ([], 0)
       = ([(''ok.py'', ''x = 1'')], 5)"
proof -
  let ?sel = "selected_files_of example_settings example_tree_items"
  let ?items2 = "[\<lparr>ti_path = ''node_modules/x.js'', ti_type = Some ''blob'',
                   ti_size = Some (3::int)\<rparr>]"
  have fc: "fetch_contents (example_raw_get ''main'') ?sel
      = ([(''src/util.py'', ''x = 1'')], [''README.md'', ''src/main.py''])"
    unfolding example_selected
    by (simp add: fetch_contents_def example_raw_get_def truncate_text_def)
  have r: "example_repo_get = Returns \<lparr>jr_status_code = 200, jr_json = Some example_info\<rparr>"
    by (simp add: example_repo_get_def)
  have b: "''main'' = (case ri_default_branch example_info of None \<Rightarrow> ''main'' | Some b \<Rightarrow> b)"
    by (simp add: example_info_def)
  have t: "example_tree_get items ''main''
      = Returns \<lparr>jr_status_code = 200, jr_json = Some \<lparr>td_tree = Some items\<rparr>\<rparr>" for items
    by (simp add: example_tree_get_def)
  have sel2: "selected_files_of example_settings ?items2 = []"
    by code_simp
  have tree2: "build_directory_tree (all_paths_of ?items2) = []"
    by code_simp
  let ?resp = "\<lparr>rr_status_code = 200, rr_content_type = None,
                 rr_text = [CHR 0x00, CHR ''a'']\<rparr>"
  have got: "example_get ''logo.dat'' = Some ?resp"
    by (simp add: example_get_def)
  have nul: "CHR 0x00 \<in> set (take 1000 (rr_text ?resp))"
    by simp
  note first = fetch_failures_swallowed[where tree_get = "example_tree_get example_tree_items"
      and tree_items = example_tree_items and st = example_settings
      and raw_get = example_raw_get and owner = "''o''" and repo = "''r''"
      and path = "''logo.dat''" and resp = ?resp and get = example_get
      and paths = "[''logo.dat'', ''gone.py'', ''slow.py'', ''ok.py'']",
      OF r b t refl refl refl refl]
  note second = fetch_failures_swallowed[where tree_get = "example_tree_get ?items2"
      and tree_items = ?items2 and st = example_settings
      and raw_get = example_raw_get and owner = "''o''" and repo = "''r''",
      OF r b t refl refl refl refl]
  note result1 = first[THEN conjunct2, THEN conjunct2, THEN conjunct1]
  note result2 = second[THEN conjunct2, THEN conjunct2, THEN conjunct1]
  note binary = first[THEN conjunct2, THEN conjunct2, THEN conjunct2, THEN conjunct2,
      THEN conjunct2, THEN conjunct2, THEN conjunct1]
  note omitted = first[THEN conjunct2, THEN conjunct2, THEN conjunct2, THEN conjunct2,
      THEN conjunct2, THEN conjunct2, THEN conjunct2, THEN conjunct2, THEN conjunct1]
  from result1 fc
  have one: "\<exists>rd. fetch_repo_data example_settings ''o'' ''r'' example_repo_get
            (example_tree_get example_tree_items) example_raw_get = Inr rd
         \<and> rd_file_contents rd = [(''src/util.py'', ''x = 1'')]"
    by (cases "fetch_repo_data example_settings ''o'' ''r'' example_repo_get
            (example_tree_get example_tree_items) example_raw_get") simp_all
  from result2 sel2 tree2
  have two: "fetch_repo_data example_settings ''o'' ''r'' example_repo_get
        (example_tree_get ?items2) example_raw_get = Inl EmptyResult"
    by (cases "fetch_repo_data example_settings ''o'' ''r'' example_repo_get
            (example_tree_get ?items2) example_raw_get") (simp_all add: fetch_contents_def)
  from binary[THEN mp, OF nul]
  have three: "fetch_file_content ''logo.dat'' (example_get ''logo.dat'') = None"
    by (simp only: got)
  from omitted[THEN mp, OF three]
  have four: "''logo.dat'' \<notin> fst ` set (fst (gather_loop example_get
         [''logo.dat'', ''gone.py'', ''slow.py'', ''ok.py''] ([], 0)))" .
  have plain: "\<not> sublist ''application/octet-stream'' ''text/plain''"
    by code_simp
  have five: "gather_loop example_get [''logo.dat'', ''gone.py'', ''slow.py'', ''ok.py''] ([], 0)
       = ([(''ok.py'', ''x = 1'')], 5)"
    by (simp add: example_get_def fetch_file_content_def MAX_CONTENT_CHARS_def
        MAX_FILE_CHARS_def plain)
  show ?thesis
    using one two three four
    by (simp only: fc five snd_conv simp_thms)
qed

text \<open>
  The claim as it was stated fails on the binary-content heuristic.  A response of status
  200 whose text begins with a NUL character trips the heuristic of \<open>fetch_file_content\<close>,
  the only one the repository has; \<open>fetch_repo_data\<close> does not leave its path out but stores
  the text under each of the three selected paths.
\<close>

theorem binary_content_stored_counterexample:
  "fetch_file_content ''src/util.py''
      (Some \<lparr>rr_status_code = 200, rr_content_type = None,
              rr_text = [CHR 0x00, CHR ''a'']\<rparr>) = None
   \<and> (\<exists>rd. fetch_repo_data example_settings ''o'' ''r'' example_repo_get
              (example_tree_get example_tree_items) nul_raw_get = Inr rd
           \<and> rd_file_contents rd
               = [(''README.md'', [CHR 0x00, CHR ''a'']),
                  (''src/main.py'', [CHR 0x00, CHR ''a'']),
                  (''src/util.py'', [CHR 0x00, CHR ''a''])])"
proof
  show "fetch_file_content ''src/util.py''
      (Some \<lparr>rr_status_code = 200, rr_content_type = None,
              rr_text = [CHR 0x00, CHR ''a'']\<rparr>) = None"
    by (simp add: fetch_file_content_def)
next
  have fc: "fetch_contents (nul_raw_get ''main'')
        (selected_files_of example_settings example_tree_items)
      = ([(''README.md'', [CHR 0x00, CHR ''a'']),
          (''src/main.py'', [CHR 0x00, CHR ''a'']),
          (''src/util.py'', [CHR 0x00, CHR ''a''])], [])"
    unfolding example_selected
    by (simp add: fetch_contents_def nul_raw_get_def truncate_text_def)
  have "fetch_repo_data example_settings ''o'' ''r'' example_repo_get
            (example_tree_get example_tree_items) nul_raw_get
      = Inr \<lparr>rd_owner = ''o'', rd_repo = ''r'', rd_description = [], rd_stars = 0,
             rd_forks = 0, rd_language = [], rd_default_branch = ''main'',
             rd_directory_tree = build_directory_tree (all_paths_of example_tree_items),
             rd_file_contents =
               [(''README.md'', [CHR 0x00, CHR ''a'']),
                (''src/main.py'', [CHR 0x00, CHR ''a'']),
                (''src/util.py'', [CHR 0x00, CHR ''a''])]\<rparr>"
    by (simp add: fetch_repo_data_def example_repo_get_def example_info_def
        example_tree_get_def assemble_repo_data_def Let_def fc)
  then show "\<exists>rd. fetch_repo_data example_settings ''o'' ''r'' example_repo_get
              (example_tree_get example_tree_items) nul_raw_get = Inr rd
           \<and> rd_file_contents rd
               = [(''README.md'', [CHR 0x00, CHR ''a'']),
                  (''src/main.py'', [CHR 0x00, CHR ''a'']),
                  (''src/util.py'', [CHR 0x00, CHR ''a''])]"
    by simp
qed

section \<open>Stored contents are truncated\<close>



section \<open>Answers of the summarization backend\<close>

text \<open>
  What \<open>summarize\<close> does with an answer that is not JSON, with a JSON object that lacks a
  required field, and what a successful result implies.
\<close>

lemma summarize_not_json:
  assumes "openai_api_key st \<noteq> []" and "raw_content \<noteq> []"
    and "json_loads (strip_fences raw_content) = None"
  shows "summarize st json_loads py_str (Inr (Some raw_content # rest))
     = Inl (SummarizerError
              (Message ''LLM returned malformed response. Please try again.'') 502)"
  using assms by (simp add: summarize_def parse_summary_def)

lemma summarize_missing_field:
  assumes "openai_api_key st \<noteq> []" and "raw_content \<noteq> []"
    and "json_loads (strip_fences raw_content) = Some (JObject kvs)"
    and "\<not> set [''summary'', ''technologies'', ''structure''] \<subseteq> fst ` set kvs"
  shows "\<exists>missing. missing \<noteq> [] \<and>
     summarize st json_loads py_str (Inr (Some raw_content # rest))
       = Inl (SummarizerError (MissingFields missing) 502)"
  using assms by (auto simp: summarize_def parse_summary_def Let_def)

lemma summarize_success_has_fields:
  assumes "summarize st json_loads py_str created = Inr r"
  shows "\<exists>raw_content rest kvs. created = Inr (Some raw_content # rest)
     \<and> json_loads (strip_fences raw_content) = Some (JObject kvs)
     \<and> set [''summary'', ''technologies'', ''structure''] \<subseteq> fst ` set kvs"
  using assms
  by (auto simp: summarize_def parse_summary_def Let_def
      split: if_splits sum.splits llm_exn.splits list.splits option.splits json.splits)

text \<open>
  C8 fails on an answer that is JSON and not an object.  The answer \<open>[]\<close> is parsed, the
  call \<open>result.keys()\<close> on the list raises \<open>AttributeError\<close>, and that is what \<open>summarize\<close>
  ends with, not a \<open>SummarizerError\<close>.
\<close>

theorem summarize_json_array_raises_attribute_error:
  "summarize example_settings example_json_loads py_str (Inr [Some ''[]''])
     = Inl AttributeError"
  by code_simp

section \<open>Tier monotonicity\<close>

text \<open>
  C5. The priority function rises strictly along the example chain: \<open>README.md\<close> is Tier 1,
  \<open>package.json\<close> Tier 2, \<open>src/app.py\<close> Tier 3, \<open>tests/test_app.py\<close> Tier 4, and the Skip
  value lies strictly above Tier 4 (a larger number is a lower priority).
\<close>

theorem tier_monotonicity_chain:
  "get_file_priority ''README.md'' = PRIORITY_TIER1
   \<and> get_file_priority ''package.json'' = PRIORITY_TIER2
   \<and> get_file_priority ''src/app.py'' = PRIORITY_TIER3
   \<and> get_file_priority ''tests/test_app.py'' = PRIORITY_TIER4
   \<and> get_file_priority ''README.md'' < get_file_priority ''package.json''
   \<and> get_file_priority ''package.json'' < get_file_priority ''src/app.py''
   \<and> get_file_priority ''src/app.py'' < get_file_priority ''tests/test_app.py''
   \<and> get_file_priority ''tests/test_app.py'' < PRIORITY_SKIP"
  by code_simp

end
